theory Spec2Isabelle
  imports Main "HOL-Library.Sublist"
begin

section \<open>JavaScript values\<close>

text \<open>
  The values that cross the interface of \<^verbatim>\<open>src/vinyldns.js\<close>: configuration objects,
  identifiers, query options, resources and parsed JSON. Numbers are restricted to the
  integers; an object is the list of its own properties in insertion order.
\<close>

datatype js_value =
    Undefined
  | Null
  | Boolean bool
  | Number int
  | String string
  | Array "js_value list"
  | Object "(string \<times> js_value) list"

text \<open>
  What can be thrown or passed to \<^verbatim>\<open>reject\<close>: the error value handed over by the HTTP
  transport, as it is (\<open>Given\<close>), a fresh \<^verbatim>\<open>new Error(message)\<close>, the \<^verbatim>\<open>SyntaxError\<close> of
  \<^verbatim>\<open>JSON.parse\<close>, and the \<^verbatim>\<open>TypeError\<close> of a property read on \<^verbatim>\<open>undefined\<close> or
  \<^verbatim>\<open>null\<close>.
\<close>

datatype 'e js_exn = Given 'e | Error string | SyntaxError | TypeError

text \<open>The condition of \<^verbatim>\<open>v ? a : b\<close> and \<^verbatim>\<open>if (v)\<close>.\<close>

fun truthy :: "js_value \<Rightarrow> bool" where
  "truthy Undefined = False"
| "truthy Null = False"
| "truthy (Boolean b) = b"
| "truthy (Number n) = (n \<noteq> 0)"
| "truthy (String s) = (s \<noteq> [])"
| "truthy (Array xs) = True"
| "truthy (Object kvs) = True"

text \<open>
  The property read \<^verbatim>\<open>v.k\<close>, for the property names the client reads (\<^verbatim>\<open>id\<close>,
  \<^verbatim>\<open>zoneId\<close>, \<^verbatim>\<open>apiUrl\<close>, \<^verbatim>\<open>accessKeyId\<close>, \<^verbatim>\<open>secretAccessKey\<close>), none of which is
  inherited from a built-in prototype: a \<^verbatim>\<open>TypeError\<close> on \<^verbatim>\<open>undefined\<close> and \<^verbatim>\<open>null\<close>,
  the own property of an object, and \<^verbatim>\<open>undefined\<close> everywhere else.
\<close>

fun get_prop :: "js_value \<Rightarrow> string \<Rightarrow> 'e js_exn + js_value" where
  "get_prop Undefined k = Inl TypeError"
| "get_prop Null k = Inl TypeError"
| "get_prop (Object kvs) k = Inr (case map_of kvs k of None \<Rightarrow> Undefined | Some v \<Rightarrow> v)"
| "get_prop v k = Inr Undefined"

subsection \<open>Strings\<close>

text \<open>
  \<^verbatim>\<open>String.prototype.toUpperCase\<close> on the ASCII letters; every other character is kept.
  The verbs the client passes are ASCII literals.
\<close>

definition toUpperChar :: "char \<Rightarrow> char" where
  "toUpperChar c =
     (case map_of (zip ''abcdefghijklmnopqrstuvwxyz'' ''ABCDEFGHIJKLMNOPQRSTUVWXYZ'') c of
        None \<Rightarrow> c
      | Some u \<Rightarrow> u)"

definition toUpperCase :: "string \<Rightarrow> string" where
  "toUpperCase s = map toUpperChar s"

text \<open>The decimal text of a number inside a template literal.\<close>

definition digit :: "nat \<Rightarrow> char" where
  "digit n = ''0123456789'' ! (n mod 10)"

function toString :: "nat \<Rightarrow> string" where
  "toString n = (if n < 10 then [digit n] else toString (n div 10) @ [digit n])"
  by pat_completeness auto
termination
  by (relation "measure (\<lambda>n. n)") auto

declare toString.simps [simp del]

section \<open>The client\<close>

subsection \<open>Records of the request pipeline\<close>

text \<open>The argument of \<^verbatim>\<open>_requestOptions\<close>; a property that is not given is \<^verbatim>\<open>undefined\<close>.\<close>

record request_opts =
  opt_url :: string
  opt_method :: "string option"
  opt_body :: js_value

text \<open>The two fields of \<^verbatim>\<open>url.parse(...)\<close> that are read; \<open>None\<close> is \<^verbatim>\<open>null\<close>.\<close>

record parsed_url =
  parsed_host :: "string option"
  parsed_path :: "string option"

text \<open>The object \<^verbatim>\<open>_requestOptions\<close> returns.\<close>

record descriptor =
  host :: "string option"
  uri :: string
  method' :: string
  path :: "string option"
  headers :: "(string \<times> string) list"
  body :: string

record credentials =
  accessKeyId :: js_value
  secretAccessKey :: js_value

text \<open>The \<^verbatim>\<open>resp\<close> argument of the transport's completion callback.\<close>

record response =
  statusCode :: nat
  resp_body :: string

type_synonym timestamp = nat

text \<open>
  The library functions the client calls. They are not part of the repository and are
  parameters of the model: \<^verbatim>\<open>url.parse\<close>, \<^verbatim>\<open>aws4.sign\<close> (which reads the clock, here its
  first argument, since the descriptor carries no date header), \<^verbatim>\<open>JSON.stringify\<close> and
  \<^verbatim>\<open>JSON.parse\<close> (\<open>None\<close> when it throws its \<^verbatim>\<open>SyntaxError\<close>).
\<close>

record platform =
  url_parse :: "string \<Rightarrow> parsed_url"
  aws4_sign :: "timestamp \<Rightarrow> descriptor \<Rightarrow> credentials \<Rightarrow> descriptor"
  JSON_stringify :: "js_value \<Rightarrow> string"
  JSON_parse :: "string \<Rightarrow> js_value option"

text \<open>
  The interface of the \<^verbatim>\<open>Urls\<close> object (\<^verbatim>\<open>require('./urls')\<close>): the methods the client
  calls, each from its arguments to a URL.
\<close>

record urls =
  Urls_getZones :: "js_value \<Rightarrow> string"
  Urls_zone :: "js_value \<Rightarrow> string"
  Urls_getZoneChanges :: "js_value \<Rightarrow> js_value \<Rightarrow> string"
  Urls_syncZone :: "js_value \<Rightarrow> string"
  Urls_zonesBase :: string
  Urls_getRecordSets :: "js_value \<Rightarrow> js_value \<Rightarrow> string"
  Urls_recordSet :: "js_value \<Rightarrow> string"
  Urls_recordSetsBase :: "js_value \<Rightarrow> string"
  Urls_recordSetChange :: "js_value \<Rightarrow> string"
  Urls_recordSetChanges :: "js_value \<Rightarrow> js_value \<Rightarrow> string"
  Urls_batchChanges :: "js_value \<Rightarrow> string"
  Urls_batchChange :: "js_value \<Rightarrow> string"
  Urls_getGroups :: "js_value \<Rightarrow> string"
  Urls_group :: "js_value \<Rightarrow> string"
  Urls_getGroupActivity :: "js_value \<Rightarrow> js_value \<Rightarrow> string"
  Urls_getGroupAdmins :: "js_value \<Rightarrow> string"
  Urls_getGroupMembers :: "js_value \<Rightarrow> js_value \<Rightarrow> string"
  Urls_groupsBase :: string

text \<open>An instance of \<^verbatim>\<open>VinylDNS\<close>: \<^verbatim>\<open>this.config\<close> and \<^verbatim>\<open>this.urls\<close>.\<close>

record client =
  config :: js_value
  urls :: urls

subsection \<open>Effects\<close>

text \<open>
  What an operation does, in order: the call of the signer with its two arguments, the call
  of the transport with the descriptor it is given, the call of \<^verbatim>\<open>JSON.parse\<close> with its
  argument, and the calls of the promise's \<^verbatim>\<open>fulfill\<close> and \<^verbatim>\<open>reject\<close>.
\<close>

datatype 'e effect =
    AwsSign descriptor credentials
  | Request descriptor
  | JsonParse string
  | Fulfill js_value
  | Reject "'e js_exn"

text \<open>
  A run of the asynchronous part: the effects, and the exception that left the transport's
  callback, if one did. The callback runs in a later turn of the event loop, outside the
  promise's executor, so such an exception is not turned into a rejection.
\<close>

record 'e run =
  trace :: "'e effect list"
  uncaught :: "'e js_exn option"

datatype 'e promise = Pending | Fulfilled js_value | Rejected "'e js_exn"

text \<open>A promise takes the first settlement and ignores the later ones.\<close>

fun settle :: "'e promise \<Rightarrow> 'e effect \<Rightarrow> 'e promise" where
  "settle Pending (Fulfill v) = Fulfilled v"
| "settle Pending (Reject x) = Rejected x"
| "settle s _ = s"

definition promise_of :: "'e effect list \<Rightarrow> 'e promise" where
  "promise_of es = foldl settle Pending es"

fun is_settlement :: "'e effect \<Rightarrow> bool" where
  "is_settlement (Fulfill v) = True"
| "is_settlement (Reject x) = True"
| "is_settlement _ = False"

fun is_signing :: "'e effect \<Rightarrow> bool" where
  "is_signing (AwsSign d c) = True"
| "is_signing _ = False"

fun is_dispatch :: "'e effect \<Rightarrow> bool" where
  "is_dispatch (Request d) = True"
| "is_dispatch _ = False"

subsection \<open>The private methods\<close>

text \<open>\<^verbatim>\<open>_requestOptions(opts)\<close>, lines 269 to 282.\<close>

definition requestOptions' :: "platform \<Rightarrow> request_opts \<Rightarrow> descriptor" where
  "requestOptions' p opts =
     (let parsedUrl = url_parse p (opt_url opts) in
      \<lparr> host = parsed_host parsedUrl,
        uri = opt_url opts,
        method' = (case opt_method opts of
                    None \<Rightarrow> ''GET''
                  | Some m \<Rightarrow> if m \<noteq> [] then toUpperCase m else ''GET''),
        path = parsed_path parsedUrl,
        headers = [(''Content-Type'', ''application/json'')],
        body = (if truthy (opt_body opts) then JSON_stringify p (opt_body opts) else []) \<rparr>)"

text \<open>
  The callback given to the transport in \<^verbatim>\<open>_request\<close>, lines 291 to 303, called with
  \<^verbatim>\<open>(err, resp)\<close>; \<open>None\<close> is \<^verbatim>\<open>null\<close> for \<^verbatim>\<open>err\<close> and \<^verbatim>\<open>undefined\<close> for \<^verbatim>\<open>resp\<close>. An error
  value of the transport is an object, which \<^verbatim>\<open>if (err)\<close> takes as true. Reading
  \<^verbatim>\<open>resp.statusCode\<close> of an \<^verbatim>\<open>undefined\<close> response throws; so does \<^verbatim>\<open>JSON.parse\<close> on a body
  that is not JSON, before \<^verbatim>\<open>fulfill\<close> is called.
\<close>

definition request_callback :: "platform \<Rightarrow> 'e option \<Rightarrow> response option \<Rightarrow> 'e run" where
  "request_callback p err resp =
     (case err of
        Some e \<Rightarrow> \<lparr> trace = [Reject (Given e)], uncaught = None \<rparr>
      | None \<Rightarrow>
          (case resp of
             None \<Rightarrow> \<lparr> trace = [], uncaught = Some TypeError \<rparr>
           | Some r \<Rightarrow>
               if 400 \<le> statusCode r
               then \<lparr> trace = [Reject (Error (toString (statusCode r) @ '': '' @ resp_body r))],
                      uncaught = None \<rparr>
               else (case JSON_parse p (resp_body r) of
                       None \<Rightarrow> \<lparr> trace = [JsonParse (resp_body r)], uncaught = Some SyntaxError \<rparr>
                     | Some v \<Rightarrow> \<lparr> trace = [JsonParse (resp_body r), Fulfill v],
                                   uncaught = None \<rparr>)))"

text \<open>The second argument of \<^verbatim>\<open>aws4.sign\<close> in \<^verbatim>\<open>_request\<close>, lines 285 to 288.\<close>

definition credentials_of :: "client \<Rightarrow> 'e js_exn + credentials" where
  "credentials_of self =
     (case get_prop (config self) ''accessKeyId'' of
        Inl x \<Rightarrow> Inl x
      | Inr k \<Rightarrow>
          (case get_prop (config self) ''secretAccessKey'' of
             Inl x \<Rightarrow> Inl x
           | Inr s \<Rightarrow> Inr \<lparr> accessKeyId = k, secretAccessKey = s \<rparr>))"

text \<open>
  \<^verbatim>\<open>_request(opts)\<close>, lines 284 to 305, together with the completion \<open>(err, resp)\<close> the
  transport later calls back with. \<open>Inl\<close> is an exception thrown to the caller before any
  promise exists.
\<close>

definition request' ::
  "platform \<Rightarrow> timestamp \<Rightarrow> client \<Rightarrow> descriptor \<Rightarrow> 'e option \<times> response option
     \<Rightarrow> 'e js_exn + 'e run" where
  "request' p now self opts completion =
     (case credentials_of self of
        Inl x \<Rightarrow> Inl x
      | Inr creds \<Rightarrow>
          (let signedReq = aws4_sign p now opts creds;
               cb = request_callback p (fst completion) (snd completion)
           in Inr \<lparr> trace = [AwsSign opts creds, Request signedReq] @ trace cb,
                    uncaught = uncaught cb \<rparr>))"

text \<open>\<^verbatim>\<open>_getOrDelete(url, method)\<close>, \<^verbatim>\<open>_createOrUpdate(resource, url, method)\<close> and
  \<^verbatim>\<open>_sync(url)\<close>, lines 307 to 327.\<close>

definition getOrDelete' ::
  "platform \<Rightarrow> timestamp \<Rightarrow> client \<Rightarrow> string \<Rightarrow> string \<Rightarrow> 'e option \<times> response option
     \<Rightarrow> 'e js_exn + 'e run" where
  "getOrDelete' p now self url m completion =
     request' p now self
       (requestOptions' p \<lparr> opt_url = url, opt_method = Some m, opt_body = Undefined \<rparr>)
       completion"

definition createOrUpdate' ::
  "platform \<Rightarrow> timestamp \<Rightarrow> client \<Rightarrow> js_value \<Rightarrow> string \<Rightarrow> string
     \<Rightarrow> 'e option \<times> response option \<Rightarrow> 'e js_exn + 'e run" where
  "createOrUpdate' p now self resource url m completion =
     request' p now self
       (requestOptions' p \<lparr> opt_url = url, opt_method = Some m, opt_body = resource \<rparr>)
       completion"

definition sync' ::
  "platform \<Rightarrow> timestamp \<Rightarrow> client \<Rightarrow> string \<Rightarrow> 'e option \<times> response option
     \<Rightarrow> 'e js_exn + 'e run" where
  "sync' p now self url completion =
     request' p now self
       (requestOptions' p \<lparr> opt_url = url, opt_method = Some ''post'', opt_body = Undefined \<rparr>)
       completion"

subsection \<open>The constructor\<close>

text \<open>
  \<^verbatim>\<open>constructor(config)\<close>, lines 36 to 39. \<open>Urls\<close> is the constructor of the \<^verbatim>\<open>Urls\<close>
  class.
\<close>

definition VinylDNS_new :: "(js_value \<Rightarrow> urls) \<Rightarrow> js_value \<Rightarrow> 'e js_exn + client" where
  "VinylDNS_new Urls cfg =
     (case get_prop cfg ''apiUrl'' of
        Inl x \<Rightarrow> Inl x
      | Inr apiUrl \<Rightarrow> Inr \<lparr> config = cfg, urls = Urls apiUrl \<rparr>)"

subsection \<open>The public methods\<close>

text \<open>
  Each method of the class, lines 48 to 267, with the environment \<open>p\<close>, the clock reading
  \<open>now\<close>, the instance \<open>self\<close> and the transport's completion as further arguments. A
  property read in an argument position is evaluated before the call.
\<close>

type_synonym 'e method_result = "'e option \<times> response option \<Rightarrow> 'e js_exn + 'e run"

definition getZones :: "platform \<Rightarrow> timestamp \<Rightarrow> client \<Rightarrow> js_value \<Rightarrow> 'e method_result" where
  "getZones p now self queryOpts = getOrDelete' p now self (Urls_getZones (urls self) queryOpts) ''get''"

definition getZone :: "platform \<Rightarrow> timestamp \<Rightarrow> client \<Rightarrow> js_value \<Rightarrow> 'e method_result" where
  "getZone p now self id' = getOrDelete' p now self (Urls_zone (urls self) id') ''get''"

definition getZoneChanges ::
  "platform \<Rightarrow> timestamp \<Rightarrow> client \<Rightarrow> js_value \<Rightarrow> js_value \<Rightarrow> 'e method_result" where
  "getZoneChanges p now self id' queryOpts =
     getOrDelete' p now self (Urls_getZoneChanges (urls self) id' queryOpts) ''get''"

definition syncZone :: "platform \<Rightarrow> timestamp \<Rightarrow> client \<Rightarrow> js_value \<Rightarrow> 'e method_result" where
  "syncZone p now self id' = sync' p now self (Urls_syncZone (urls self) id')"

definition createZone :: "platform \<Rightarrow> timestamp \<Rightarrow> client \<Rightarrow> js_value \<Rightarrow> 'e method_result" where
  "createZone p now self zone = createOrUpdate' p now self zone (Urls_zonesBase (urls self)) ''post''"

definition updateZone :: "platform \<Rightarrow> timestamp \<Rightarrow> client \<Rightarrow> js_value \<Rightarrow> 'e method_result" where
  "updateZone p now self zone completion =
     (case get_prop zone ''id'' of
        Inl x \<Rightarrow> Inl x
      | Inr id' \<Rightarrow> createOrUpdate' p now self zone (Urls_zone (urls self) id') ''put'' completion)"

definition deleteZone :: "platform \<Rightarrow> timestamp \<Rightarrow> client \<Rightarrow> js_value \<Rightarrow> 'e method_result" where
  "deleteZone p now self id' = getOrDelete' p now self (Urls_zone (urls self) id') ''delete''"

definition getRecordSets ::
  "platform \<Rightarrow> timestamp \<Rightarrow> client \<Rightarrow> js_value \<Rightarrow> js_value \<Rightarrow> 'e method_result" where
  "getRecordSets p now self zoneId queryOpts =
     getOrDelete' p now self (Urls_getRecordSets (urls self) zoneId queryOpts) ''get''"

definition getRecordSet :: "platform \<Rightarrow> timestamp \<Rightarrow> client \<Rightarrow> js_value \<Rightarrow> 'e method_result" where
  "getRecordSet p now self details =
     getOrDelete' p now self (Urls_recordSet (urls self) details) ''get''"

definition createRecordSet :: "platform \<Rightarrow> timestamp \<Rightarrow> client \<Rightarrow> js_value \<Rightarrow> 'e method_result" where
  "createRecordSet p now self recordSet completion =
     (case get_prop recordSet ''zoneId'' of
        Inl x \<Rightarrow> Inl x
      | Inr zoneId \<Rightarrow>
          createOrUpdate' p now self recordSet (Urls_recordSetsBase (urls self) zoneId) ''post''
            completion)"

definition updateRecordSet :: "platform \<Rightarrow> timestamp \<Rightarrow> client \<Rightarrow> js_value \<Rightarrow> 'e method_result" where
  "updateRecordSet p now self recordSet =
     createOrUpdate' p now self recordSet (Urls_recordSet (urls self) recordSet) ''put''"

definition deleteRecordSet :: "platform \<Rightarrow> timestamp \<Rightarrow> client \<Rightarrow> js_value \<Rightarrow> 'e method_result" where
  "deleteRecordSet p now self details =
     getOrDelete' p now self (Urls_recordSet (urls self) details) ''delete''"

definition getRecordSetChange ::
  "platform \<Rightarrow> timestamp \<Rightarrow> client \<Rightarrow> js_value \<Rightarrow> 'e method_result" where
  "getRecordSetChange p now self details =
     getOrDelete' p now self (Urls_recordSetChange (urls self) details) ''get''"

definition getRecordSetChanges ::
  "platform \<Rightarrow> timestamp \<Rightarrow> client \<Rightarrow> js_value \<Rightarrow> js_value \<Rightarrow> 'e method_result" where
  "getRecordSetChanges p now self zoneId queryOpts =
     getOrDelete' p now self (Urls_recordSetChanges (urls self) zoneId queryOpts) ''get''"

definition getBatchChanges :: "platform \<Rightarrow> timestamp \<Rightarrow> client \<Rightarrow> js_value \<Rightarrow> 'e method_result" where
  "getBatchChanges p now self queryOpts =
     getOrDelete' p now self (Urls_batchChanges (urls self) queryOpts) ''get''"

definition getBatchChange :: "platform \<Rightarrow> timestamp \<Rightarrow> client \<Rightarrow> js_value \<Rightarrow> 'e method_result" where
  "getBatchChange p now self id' = getOrDelete' p now self (Urls_batchChange (urls self) id') ''get''"

definition createBatchChange ::
  "platform \<Rightarrow> timestamp \<Rightarrow> client \<Rightarrow> js_value \<Rightarrow> 'e method_result" where
  "createBatchChange p now self batchChange =
     createOrUpdate' p now self batchChange (Urls_batchChanges (urls self) Undefined) ''post''"

definition getGroups :: "platform \<Rightarrow> timestamp \<Rightarrow> client \<Rightarrow> js_value \<Rightarrow> 'e method_result" where
  "getGroups p now self queryOpts =
     getOrDelete' p now self (Urls_getGroups (urls self) queryOpts) ''get''"

definition getGroup :: "platform \<Rightarrow> timestamp \<Rightarrow> client \<Rightarrow> js_value \<Rightarrow> 'e method_result" where
  "getGroup p now self id' = getOrDelete' p now self (Urls_group (urls self) id') ''get''"

definition getGroupActivity ::
  "platform \<Rightarrow> timestamp \<Rightarrow> client \<Rightarrow> js_value \<Rightarrow> js_value \<Rightarrow> 'e method_result" where
  "getGroupActivity p now self id' queryOpts =
     getOrDelete' p now self (Urls_getGroupActivity (urls self) id' queryOpts) ''get''"

definition getGroupAdmins :: "platform \<Rightarrow> timestamp \<Rightarrow> client \<Rightarrow> js_value \<Rightarrow> 'e method_result" where
  "getGroupAdmins p now self id' =
     getOrDelete' p now self (Urls_getGroupAdmins (urls self) id') ''get''"

definition getGroupMembers ::
  "platform \<Rightarrow> timestamp \<Rightarrow> client \<Rightarrow> js_value \<Rightarrow> js_value \<Rightarrow> 'e method_result" where
  "getGroupMembers p now self id' queryOpts =
     getOrDelete' p now self (Urls_getGroupMembers (urls self) id' queryOpts) ''get''"

definition createGroup :: "platform \<Rightarrow> timestamp \<Rightarrow> client \<Rightarrow> js_value \<Rightarrow> 'e method_result" where
  "createGroup p now self grp =
     createOrUpdate' p now self grp (Urls_groupsBase (urls self)) ''post''"

definition updateGroup :: "platform \<Rightarrow> timestamp \<Rightarrow> client \<Rightarrow> js_value \<Rightarrow> 'e method_result" where
  "updateGroup p now self grp completion =
     (case get_prop grp ''id'' of
        Inl x \<Rightarrow> Inl x
      | Inr id' \<Rightarrow> createOrUpdate' p now self grp (Urls_group (urls self) id') ''put'' completion)"

definition deleteGroup :: "platform \<Rightarrow> timestamp \<Rightarrow> client \<Rightarrow> js_value \<Rightarrow> 'e method_result" where
  "deleteGroup p now self id' = getOrDelete' p now self (Urls_group (urls self) id') ''delete''"

text \<open>A call of one of the twenty-five public methods, with its arguments.\<close>

datatype operation =
    GetZones js_value
  | GetZone js_value
  | GetZoneChanges js_value js_value
  | SyncZone js_value
  | CreateZone js_value
  | UpdateZone js_value
  | DeleteZone js_value
  | GetRecordSets js_value js_value
  | GetRecordSet js_value
  | CreateRecordSet js_value
  | UpdateRecordSet js_value
  | DeleteRecordSet js_value
  | GetRecordSetChange js_value
  | GetRecordSetChanges js_value js_value
  | GetBatchChanges js_value
  | GetBatchChange js_value
  | CreateBatchChange js_value
  | GetGroups js_value
  | GetGroup js_value
  | GetGroupActivity js_value js_value
  | GetGroupAdmins js_value
  | GetGroupMembers js_value js_value
  | CreateGroup js_value
  | UpdateGroup js_value
  | DeleteGroup js_value

fun call :: "platform \<Rightarrow> timestamp \<Rightarrow> client \<Rightarrow> operation \<Rightarrow> 'e method_result" where
  "call p now self (GetZones q) = getZones p now self q"
| "call p now self (GetZone i) = getZone p now self i"
| "call p now self (GetZoneChanges i q) = getZoneChanges p now self i q"
| "call p now self (SyncZone i) = syncZone p now self i"
| "call p now self (CreateZone z) = createZone p now self z"
| "call p now self (UpdateZone z) = updateZone p now self z"
| "call p now self (DeleteZone i) = deleteZone p now self i"
| "call p now self (GetRecordSets z q) = getRecordSets p now self z q"
| "call p now self (GetRecordSet d) = getRecordSet p now self d"
| "call p now self (CreateRecordSet r) = createRecordSet p now self r"
| "call p now self (UpdateRecordSet r) = updateRecordSet p now self r"
| "call p now self (DeleteRecordSet d) = deleteRecordSet p now self d"
| "call p now self (GetRecordSetChange d) = getRecordSetChange p now self d"
| "call p now self (GetRecordSetChanges z q) = getRecordSetChanges p now self z q"
| "call p now self (GetBatchChanges q) = getBatchChanges p now self q"
| "call p now self (GetBatchChange i) = getBatchChange p now self i"
| "call p now self (CreateBatchChange b) = createBatchChange p now self b"
| "call p now self (GetGroups q) = getGroups p now self q"
| "call p now self (GetGroup i) = getGroup p now self i"
| "call p now self (GetGroupActivity i q) = getGroupActivity p now self i q"
| "call p now self (GetGroupAdmins i) = getGroupAdmins p now self i"
| "call p now self (GetGroupMembers i q) = getGroupMembers p now self i q"
| "call p now self (CreateGroup g) = createGroup p now self g"
| "call p now self (UpdateGroup g) = updateGroup p now self g"
| "call p now self (DeleteGroup i) = deleteGroup p now self i"

text \<open>The verb literal each public method passes on (\<^verbatim>\<open>_sync\<close> passes \<^verbatim>\<open>'post'\<close>).\<close>

fun verb :: "operation \<Rightarrow> string" where
  "verb (SyncZone i) = ''post''"
| "verb (CreateZone z) = ''post''"
| "verb (UpdateZone z) = ''put''"
| "verb (DeleteZone i) = ''delete''"
| "verb (CreateRecordSet r) = ''post''"
| "verb (UpdateRecordSet r) = ''put''"
| "verb (DeleteRecordSet d) = ''delete''"
| "verb (CreateBatchChange b) = ''post''"
| "verb (CreateGroup g) = ''post''"
| "verb (UpdateGroup g) = ''put''"
| "verb (DeleteGroup i) = ''delete''"
| "verb _ = ''get''"

text \<open>The resource each public method passes on as the body; \<^verbatim>\<open>undefined\<close> when it passes none.\<close>

fun payload :: "operation \<Rightarrow> js_value" where
  "payload (CreateZone z) = z"
| "payload (UpdateZone z) = z"
| "payload (CreateRecordSet r) = r"
| "payload (UpdateRecordSet r) = r"
| "payload (CreateBatchChange b) = b"
| "payload (CreateGroup g) = g"
| "payload (UpdateGroup g) = g"
| "payload _ = Undefined"

text \<open>The descriptor a public method builds, for the URL it got from the URL builder.\<close>

definition built :: "platform \<Rightarrow> operation \<Rightarrow> string \<Rightarrow> descriptor" where
  "built p op url =
     requestOptions' p \<lparr> opt_url = url, opt_method = Some (verb op), opt_body = payload op \<rparr>"

section \<open>The URL builder\<close>

text \<open>
  Modelled from the spec: the \<^verbatim>\<open>Urls\<close> class that \<^verbatim>\<open>vinyldns.js\<close> requires from
  \<^verbatim>\<open>./urls\<close> is not under \<^verbatim>\<open>src/\<close>. Section 4.1 of the specification describes it: every
  operation maps a resource and optional query parameters to a URL under the base endpoint,
  identifiers are taken literally, query parameters are appended as \<^verbatim>\<open>key=value\<close> pairs joined
  by \<^verbatim>\<open>&\<close> with percent-encoded values and only when present, no \<^verbatim>\<open>?\<close> is appended without
  parameters, and there are no error conditions: the inputs are not validated. The paths of
  the operations section 4.1 does not list follow the pattern of the listed ones.
\<close>

fun join :: "string \<Rightarrow> string list \<Rightarrow> string" where
  "join sep [] = []"
| "join sep [x] = x"
| "join sep (x # y # ys) = x @ sep @ join sep (y # ys)"

text \<open>The text of a value inside a template literal, by which an identifier is taken literally.\<close>

fun ToString :: "js_value \<Rightarrow> string" where
  "ToString Undefined = ''undefined''"
| "ToString Null = ''null''"
| "ToString (Boolean b) = (if b then ''true'' else ''false'')"
| "ToString (Number n) = (if n < 0 then ''-'' @ toString (nat (- n)) else toString (nat n))"
| "ToString (String s) = s"
| "ToString (Array xs) =
     join '','' (map (\<lambda>x. if x = Undefined \<or> x = Null then [] else ToString x) xs)"
| "ToString (Object kvs) = ''[object Object]''"

definition hexdigit :: "nat \<Rightarrow> char" where
  "hexdigit n = ''0123456789ABCDEF'' ! (n mod 16)"

definition unreserved :: "char \<Rightarrow> bool" where
  "unreserved c \<longleftrightarrow>
     c \<in> set ''ABCDEFGHIJKLMNOPQRSTUVWXYZabcdefghijklmnopqrstuvwxyz0123456789-_.!~*()''
     \<or> c = CHR 0x27"

definition encodeURIComponent :: "string \<Rightarrow> string" where
  "encodeURIComponent s =
     concat (map (\<lambda>c. if unreserved c then [c]
                       else [CHR ''%'', hexdigit (of_char c div 16), hexdigit (of_char c)]) s)"

text \<open>
  Modelled from the spec: the property read of the URL builder (section 4.1), which has no
  error conditions; a property that cannot be read is \<^verbatim>\<open>undefined\<close>.
\<close>

definition field :: "js_value \<Rightarrow> string \<Rightarrow> js_value" where
  "field v k = (case v of Object kvs \<Rightarrow> (case map_of kvs k of None \<Rightarrow> Undefined | Some x \<Rightarrow> x)
                | _ \<Rightarrow> Undefined)"

text \<open>
  Modelled from the spec: the query string of the URL builder (section 4.1), the parameters
  that are present as \<^verbatim>\<open>key=value\<close> pairs joined by \<^verbatim>\<open>&\<close>, the values percent-encoded, after
  a \<^verbatim>\<open>?\<close>, and nothing at all without parameters.
\<close>

definition queryString :: "js_value \<Rightarrow> string" where
  "queryString queryOpts =
     (case queryOpts of
        Object kvs \<Rightarrow>
          (let present = filter (\<lambda>(k, v). v \<noteq> Undefined \<and> v \<noteq> Null) kvs in
           if present = [] then []
           else ''?'' @ join ''&''
                  (map (\<lambda>(k, v). k @ ''='' @ encodeURIComponent (ToString v)) present))
      | _ \<Rightarrow> [])"

text \<open>
  Modelled from the spec: the constructor of the \<^verbatim>\<open>Urls\<close> class, which is not under
  \<^verbatim>\<open>src/\<close>, with the path templates of section 4.1 over the base endpoint it is given.
\<close>

definition Urls_new :: "js_value \<Rightarrow> urls" where
  "Urls_new apiUrl =
     (let base = ToString apiUrl;
          zone = (\<lambda>id'. base @ ''/zones/'' @ ToString id');
          recordSetsBase = (\<lambda>zoneId. zone zoneId @ ''/recordsets'');
          batchChanges = base @ ''/zonechanges/batchrecordchanges'';
          grp = (\<lambda>id'. base @ ''/groups/'' @ ToString id')
      in \<lparr> Urls_getZones = (\<lambda>q. base @ ''/zones'' @ queryString q),
           Urls_zone = zone,
           Urls_getZoneChanges = (\<lambda>id' q. zone id' @ ''/changes'' @ queryString q),
           Urls_syncZone = (\<lambda>id'. zone id' @ ''/sync''),
           Urls_zonesBase = base @ ''/zones'',
           Urls_getRecordSets = (\<lambda>zoneId q. recordSetsBase zoneId @ queryString q),
           Urls_recordSet =
             (\<lambda>d. recordSetsBase (field d ''zoneId'') @ ''/'' @ ToString (field d ''id'')),
           Urls_recordSetsBase = recordSetsBase,
           Urls_recordSetChange =
             (\<lambda>d. recordSetsBase (field d ''zoneId'') @ ''/'' @ ToString (field d ''recordSetId'')
                    @ ''/changes/'' @ ToString (field d ''changeId'')),
           Urls_recordSetChanges =
             (\<lambda>zoneId q. zone zoneId @ ''/recordsetchanges'' @ queryString q),
           Urls_batchChanges = (\<lambda>q. batchChanges @ queryString q),
           Urls_batchChange = (\<lambda>id'. batchChanges @ ''/'' @ ToString id'),
           Urls_getGroups = (\<lambda>q. base @ ''/groups'' @ queryString q),
           Urls_group = grp,
           Urls_getGroupActivity = (\<lambda>id' q. grp id' @ ''/activity'' @ queryString q),
           Urls_getGroupAdmins = (\<lambda>id'. grp id' @ ''/admins''),
           Urls_getGroupMembers = (\<lambda>id' q. grp id' @ ''/members'' @ queryString q),
           Urls_groupsBase = base @ ''/groups'' \<rparr>)"

section \<open>A concrete environment\<close>

text \<open>
  Stand-ins for the library functions, for evaluating the model on concrete calls: a URL
  parser for URLs under \<^verbatim>\<open>https://api.example.com\<close>, a signer that adds a date header and
  an authorization header and leaves the rest of the descriptor alone, and
  \<^verbatim>\<open>JSON.stringify\<close> and \<^verbatim>\<open>JSON.parse\<close> as tables over the few values and texts used.
\<close>

definition team_a :: js_value where
  "team_a = Object [(''name'', String ''team-a''), (''email'', String ''a@x.com''),
                    (''members'', Array []), (''admins'', Array [])]"

definition team_a_text :: string where
  \<open>team_a_text = ''{"name":"team-a","email":"a@x.com","members":[],"admins":[]}''\<close>

definition not_found_text :: string where
  \<open>not_found_text = ''{"message":"not found"}''\<close>

definition example_platform :: platform where
  "example_platform =
     \<lparr> url_parse = (\<lambda>u. \<lparr> parsed_host = Some ''api.example.com'', parsed_path = Some (drop 23 u) \<rparr>),
       aws4_sign = (\<lambda>t d c. d \<lparr> headers :=
                      headers d @ [(''X-Amz-Date'', toString t),
                                   (''Authorization'', ''AWS4-HMAC-SHA256 Credential=''
                                       @ ToString (accessKeyId c))] \<rparr>),
       JSON_stringify = (\<lambda>v. if v = team_a then team_a_text else ''null''),
       JSON_parse = (\<lambda>s. if s = team_a_text then Some team_a
                          else if s = not_found_text
                          then Some (Object [(''message'', String ''not found'')])
                          else None) \<rparr>"

definition example_config :: js_value where
  "example_config = Object [(''apiUrl'', String ''https://api.example.com''),
                            (''accessKeyId'', String ''AKID''),
                            (''secretAccessKey'', String ''SECRET'')]"

definition example_client :: client where
  "example_client =
     \<lparr> config = example_config, urls = Urls_new (String ''https://api.example.com'') \<rparr>"

section \<open>Auxiliary facts\<close>

lemma request'_Inr:
  assumes "request' p now self d c = Inr out"
  shows "\<exists>cr. credentials_of self = (Inr cr :: 'e js_exn + credentials)
           \<and> trace (out :: 'e run) = AwsSign d cr # Request (aws4_sign p now d cr)
                           # trace (request_callback p (fst c) (snd c))
           \<and> uncaught out = uncaught (request_callback p (fst c) (snd c))"
  using assms by (auto simp: request'_def Let_def split: sum.splits)

lemma call_Inr:
  assumes "call p now self op c = Inr out"
  shows "\<exists>url. request' p now self
       (requestOptions' p \<lparr> opt_url = url, opt_method = Some (verb op), opt_body = payload op \<rparr>) c
     = Inr out"
  using assms
  by (cases op)
     (auto simp: getZones_def getZone_def getZoneChanges_def syncZone_def createZone_def
        updateZone_def deleteZone_def getRecordSets_def getRecordSet_def createRecordSet_def
        updateRecordSet_def deleteRecordSet_def getRecordSetChange_def getRecordSetChanges_def
        getBatchChanges_def getBatchChange_def createBatchChange_def getGroups_def getGroup_def
        getGroupActivity_def getGroupAdmins_def getGroupMembers_def createGroup_def
        updateGroup_def deleteGroup_def getOrDelete'_def createOrUpdate'_def sync'_def
        split: sum.splits)

lemma call_trace:
  assumes "call p now self op c = Inr out"
  shows "\<exists>url cr. credentials_of self = (Inr cr :: 'e js_exn + credentials)
    \<and> trace (out :: 'e run) = AwsSign (built p op url) cr # Request (aws4_sign p now (built p op url) cr)
           # trace (request_callback p (fst c) (snd c))
    \<and> uncaught out = uncaught (request_callback p (fst c) (snd c))"
  using call_Inr[OF assms] request'_Inr unfolding built_def by blast

lemma credentials_example:
  "credentials_of example_client
     = Inr \<lparr> accessKeyId = String ''AKID'', secretAccessKey = String ''SECRET'' \<rparr>"
  by (simp add: credentials_of_def example_client_def example_config_def)

lemma request'_returns:
  assumes "credentials_of self = (Inr cr :: 'e js_exn + credentials)"
  shows "\<exists>out. request' p now self d (c :: 'e option \<times> response option) = Inr out"
  using assms by (simp add: request'_def Let_def)

lemma example_getOrDelete_returns:
  "\<exists>out. getOrDelete' example_platform now example_client u m
           (c :: 'e option \<times> response option) = Inr out"
  by (simp add: getOrDelete'_def request'_returns[OF credentials_example])

lemma example_createOrUpdate_returns:
  "\<exists>out. createOrUpdate' example_platform now example_client r u m
           (c :: 'e option \<times> response option) = Inr out"
  by (simp add: createOrUpdate'_def request'_returns[OF credentials_example])

lemma example_sync_returns:
  "\<exists>out. sync' example_platform now example_client u
           (c :: 'e option \<times> response option) = Inr out"
  by (simp add: sync'_def request'_returns[OF credentials_example])

lemma example_getZone_returns:
  "\<exists>out. call example_platform now example_client (GetZone i) (c :: 'e option \<times> response option) = Inr out"
  by (simp add: getZone_def example_getOrDelete_returns)

lemma toString_404: "toString 404 = ''404''"
  by (simp add: toString.simps digit_def)

lemma toUpperCase_verbs:
  "toUpperCase ''get'' = ''GET''" "toUpperCase ''post'' = ''POST''"
  "toUpperCase ''put'' = ''PUT''" "toUpperCase ''delete'' = ''DELETE''"
  by (simp_all add: toUpperCase_def toUpperChar_def)

lemma verb_cases: "verb op \<in> {''get'', ''post'', ''put'', ''delete''}"
  by (cases op) simp_all

lemma method_built: "method' (built p op url) = toUpperCase (verb op)"
  using verb_cases[of op] by (auto simp: built_def requestOptions'_def Let_def)

lemma headers_built: "headers (built p op url) = [(''Content-Type'', ''application/json'')]"
  by (simp add: built_def requestOptions'_def Let_def)

lemma body_built:
  "body (built p op url) = (if truthy (payload op) then JSON_stringify p (payload op) else [])"
  by (simp add: built_def requestOptions'_def Let_def)

lemma callback_no_signing:
  "filter is_signing (trace (request_callback p err resp)) = []"
  "filter is_dispatch (trace (request_callback p err resp)) = []"
  by (simp_all add: request_callback_def split: option.splits)

lemma bodyless_payload:
  assumes "verb op = ''get'' \<or> verb op = ''delete'' \<or> op = SyncZone i"
  shows "payload op = Undefined"
  using assms by (cases op) simp_all

lemma example_write_returns:
  assumes "op \<in> {CreateZone team_a, UpdateZone team_a, CreateRecordSet team_a,
                 UpdateRecordSet team_a, CreateBatchChange team_a, CreateGroup team_a,
                 UpdateGroup team_a}"
  shows "\<exists>out. call example_platform now example_client op
                 (c :: 'e option \<times> response option) = Inr out"
  using assms
  by (auto simp: createZone_def updateZone_def createRecordSet_def updateRecordSet_def
        createBatchChange_def createGroup_def updateGroup_def team_a_def
        example_createOrUpdate_returns)

lemma example_bodyless_returns:
  assumes "op \<in> {GetZone i, DeleteZone i, SyncZone i}"
  shows "\<exists>out. call example_platform now example_client op
                 (c :: 'e option \<times> response option) = Inr out"
  using assms
  by (auto simp: getZone_def deleteZone_def syncZone_def example_getOrDelete_returns
        example_sync_returns)

lemma example_signer_keeps_body: "body (aws4_sign example_platform t d cr) = body d"
  by (simp add: example_platform_def)

section \<open>Error signalling\<close>

text \<open>
  C1: whatever public method was called, when the transport completes without an error and
  with a response whose status code is at least 400, the promise is rejected with a fresh
  \<^verbatim>\<open>Error\<close> whose message is the status code in decimal, a colon, a space and the raw body,
  so that the message contains both the status code and the body text; nothing is thrown.
\<close>

theorem remote_rejection_rejects:
  assumes "call p now self op (None, Some resp) = Inr out"
    and "400 \<le> statusCode resp"
  shows "\<exists>msg. promise_of (trace out) = Rejected (Error msg)
           \<and> msg = toString (statusCode resp) @ '': '' @ resp_body resp
           \<and> sublist (toString (statusCode resp)) msg
           \<and> sublist (resp_body resp) msg
           \<and> uncaught out = None"
proof -
  from call_trace[OF assms(1)] obtain url cr where
    t: "trace out = AwsSign (built p op url) cr # Request (aws4_sign p now (built p op url) cr)
           # trace (request_callback p None (Some resp))"
    and u: "uncaught out = uncaught (request_callback p None (Some resp))"
    by auto
  let ?msg = "toString (statusCode resp) @ '': '' @ resp_body resp"
  have "promise_of (trace out) = Rejected (Error ?msg)"
    using assms(2) by (simp add: t promise_of_def request_callback_def)
  moreover have "sublist (toString (statusCode resp)) ?msg"
    by (rule sublist_append_rightI)
  moreover have "sublist (resp_body resp) ?msg"
    using sublist_appendI[of "resp_body resp" "toString (statusCode resp) @ '': ''" "[]"] by simp
  moreover have "uncaught out = None"
    using assms(2) by (simp add: u request_callback_def)
  ultimately show ?thesis by blast
qed


theorem remote_rejection_rejects_witness:
  \<open>(400::nat) \<le> 404
   \<and> (\<exists>out. call example_platform 0 example_client (GetZone (String ''abc123''))
               (None :: unit option, Some \<lparr> statusCode = 404, resp_body = ''{"message":"not found"}'' \<rparr>)
             = Inr out
           \<and> promise_of (trace out) = Rejected (Error ''404: {"message":"not found"}'')
           \<and> uncaught out = None)
   \<and> sublist ''404'' ''404: {"message":"not found"}''
   \<and> sublist ''not found'' ''404: {"message":"not found"}''\<close>
proof -
  let ?resp = \<open>\<lparr> statusCode = 404, resp_body = ''{"message":"not found"}'' \<rparr>\<close>
  obtain out where
    o: "call example_platform 0 example_client (GetZone (String ''abc123''))
          (None :: unit option, Some ?resp) = Inr out"
    using example_getZone_returns by blast
  have h: "400 \<le> statusCode ?resp" by simp
  from remote_rejection_rejects[OF o h]
  have "promise_of (trace out) = Rejected (Error (toString 404 @ '': '' @ resp_body ?resp))"
    and "sublist (toString 404) (toString 404 @ '': '' @ resp_body ?resp)"
    and "sublist (resp_body ?resp) (toString 404 @ '': '' @ resp_body ?resp)"
    and "uncaught out = None"
    by auto
  moreover have \<open>sublist ''not found'' (resp_body ?resp)\<close>
    using sublist_appendI[of "''not found''" \<open>''{"message":"''\<close> \<open>''"}''\<close>] by simp
  ultimately show ?thesis
    using o by (auto simp: toString_404 dest: sublist_order.order.trans)
qed

text \<open>
  C2: when the transport completes with an error, the promise is rejected with that very
  value. The effects of the whole operation are one call of the signer, one call of the
  transport and one call of \<^verbatim>\<open>reject\<close>: nothing is sent again and \<^verbatim>\<open>JSON.parse\<close> is not
  called. This holds whatever the response argument is, \<^verbatim>\<open>undefined\<close> included, so the
  status code is not read either.
\<close>

theorem transport_error_rejects_unmodified:
  assumes "call p now self op (Some e, resp) = Inr out"
  shows "promise_of (trace out) = Rejected (Given e)
         \<and> uncaught out = None
         \<and> (\<exists>d cr. trace out = [AwsSign d cr, Request (aws4_sign p now d cr), Reject (Given e)])"
proof -
  from call_trace[OF assms] obtain url cr where
    t: "trace out = AwsSign (built p op url) cr # Request (aws4_sign p now (built p op url) cr)
           # trace (request_callback p (Some e) resp)"
    and u: "uncaught out = uncaught (request_callback p (Some e) resp)"
    by auto
  have cb: "request_callback p (Some e) resp = \<lparr> trace = [Reject (Given e)], uncaught = None \<rparr>"
    by (simp add: request_callback_def)
  show ?thesis
    by (simp add: t u cb promise_of_def)
qed

theorem transport_error_rejects_unmodified_witness:
  "\<exists>out. call example_platform 0 example_client (GetZone (String ''abc123''))
            (Some ''ECONNREFUSED'', None) = Inr out
         \<and> promise_of (trace out) = Rejected (Given ''ECONNREFUSED'')
         \<and> uncaught out = None"
proof -
  obtain out where
    o: "call example_platform 0 example_client (GetZone (String ''abc123''))
          (Some ''ECONNREFUSED'', None) = Inr out"
    using example_getZone_returns by blast
  from transport_error_rejects_unmodified[OF o] show ?thesis
    using o by blast
qed

text \<open>
  C3: the code does not reject the promise when the body of a response with a status code
  below 400 is not valid JSON. \<^verbatim>\<open>JSON.parse\<close> throws inside the transport's callback,
  neither \<^verbatim>\<open>fulfill\<close> nor \<^verbatim>\<open>reject\<close> is called, the promise stays pending and the
  \<^verbatim>\<open>SyntaxError\<close> leaves the callback uncaught.
\<close>

theorem invalid_json_leaves_promise_pending:
  assumes "call p now self op (None, Some resp) = Inr out"
    and "statusCode resp < 400"
    and "JSON_parse p (resp_body resp) = None"
  shows "promise_of (trace out) = Pending \<and> uncaught out = Some SyntaxError"
proof -
  from call_trace[OF assms(1)] obtain url cr where
    t: "trace out = AwsSign (built p op url) cr # Request (aws4_sign p now (built p op url) cr)
           # trace (request_callback p None (Some resp))"
    and u: "uncaught out = uncaught (request_callback p None (Some resp))"
    by auto
  have cb: "request_callback p None (Some resp)
              = \<lparr> trace = [JsonParse (resp_body resp)], uncaught = Some SyntaxError \<rparr>"
    using assms(2,3) by (simp add: request_callback_def)
  show ?thesis
    by (simp add: t u cb promise_of_def)
qed

theorem invalid_json_leaves_promise_pending_witness:
  "(200::nat) < 400
   \<and> JSON_parse example_platform ''<html></html>'' = None
   \<and> (\<exists>out. call example_platform 0 example_client (GetZone (String ''abc123''))
               (None :: unit option, Some \<lparr> statusCode = 200, resp_body = ''<html></html>'' \<rparr>)
             = Inr out
           \<and> promise_of (trace out) = Pending
           \<and> uncaught out = Some SyntaxError)"
proof -
  let ?resp = "\<lparr> statusCode = 200, resp_body = ''<html></html>'' \<rparr>"
  obtain out where
    o: "call example_platform 0 example_client (GetZone (String ''abc123''))
          (None :: unit option, Some ?resp) = Inr out"
    using example_getZone_returns by blast
  have h1: "statusCode ?resp < 400" by simp
  have h2: "JSON_parse example_platform (resp_body ?resp) = None"
    by (simp add: example_platform_def team_a_text_def not_found_text_def)
  from invalid_json_leaves_promise_pending[OF o h1 h2] show ?thesis
    using o h2 by auto
qed

text \<open>
  C8: the number of calls of \<^verbatim>\<open>fulfill\<close> and \<^verbatim>\<open>reject\<close> for a completion that carries an
  error or a response. It is one, except for a response with a status code below 400 whose
  body \<^verbatim>\<open>JSON.parse\<close> rejects: there it is zero, and the promise is never settled.
\<close>

theorem settlement_count:
  assumes "call p now self op (err, resp) = Inr out"
    and "err \<noteq> None \<or> resp \<noteq> None"
  shows "length (filter is_settlement (trace out))
         = (if err = None
               \<and> (\<exists>r. resp = Some r \<and> statusCode r < 400 \<and> JSON_parse p (resp_body r) = None)
            then 0 else 1)"
proof -
  from call_trace[OF assms(1)] obtain url cr where
    t: "trace out = AwsSign (built p op url) cr # Request (aws4_sign p now (built p op url) cr)
           # trace (request_callback p err resp)"
    by auto
  show ?thesis
    using assms(2) by (auto simp: t request_callback_def split: option.splits)
qed

theorem settlement_count_witness:
  "\<exists>out. call example_platform 0 example_client (DeleteZone (String ''abc123''))
            (None :: unit option, Some \<lparr> statusCode = 200, resp_body = [] \<rparr>) = Inr out
         \<and> length (filter is_settlement (trace out)) = 0"
proof -
  let ?resp = "\<lparr> statusCode = 200, resp_body = [] \<rparr>"
  have "\<exists>out. call example_platform 0 example_client (DeleteZone (String ''abc123''))
          (None :: unit option, Some ?resp) = Inr out"
    by (simp add: deleteZone_def example_getOrDelete_returns)
  then obtain out where
    o: "call example_platform 0 example_client (DeleteZone (String ''abc123''))
          (None :: unit option, Some ?resp) = Inr out"
    by blast
  have h: "(None :: unit option) \<noteq> None \<or> Some ?resp \<noteq> None"
    by simp
  have h2: "JSON_parse example_platform (resp_body ?resp) = None"
    by (simp add: example_platform_def team_a_text_def not_found_text_def)
  from settlement_count[OF o h] show ?thesis
    using o h2 by auto
qed

section \<open>Construction\<close>

text \<open>
  C4, as stated, fails on the code: a configuration object without \<^verbatim>\<open>accessKeyId\<close> and
  without \<^verbatim>\<open>secretAccessKey\<close> is accepted by the constructor.
\<close>

theorem constructor_accepts_missing_credentials:
  "get_prop (Object [(''apiUrl'', String ''https://api.example.com'')]) ''accessKeyId''
     = (Inr Undefined :: unit js_exn + js_value)
   \<and> get_prop (Object [(''apiUrl'', String ''https://api.example.com'')]) ''secretAccessKey''
     = (Inr Undefined :: unit js_exn + js_value)
   \<and> VinylDNS_new Urls_new (Object [(''apiUrl'', String ''https://api.example.com'')])
     = (Inr \<lparr> config = Object [(''apiUrl'', String ''https://api.example.com'')],
              urls = Urls_new (String ''https://api.example.com'') \<rparr> :: unit js_exn + client)"
  by (simp add: VinylDNS_new_def)

text \<open>
  C4, amended: the constructor validates nothing. For every configuration object, whichever
  of \<^verbatim>\<open>apiUrl\<close>, \<^verbatim>\<open>accessKeyId\<close> and \<^verbatim>\<open>secretAccessKey\<close> it lacks, construction returns
  an instance that holds the object unchanged, the URL builder being constructed from
  \<^verbatim>\<open>config.apiUrl\<close>, \<^verbatim>\<open>undefined\<close> when missing. A missing credential raises no error at
  request time either: the signer is called with \<^verbatim>\<open>undefined\<close> in its place.
\<close>

theorem constructor_validates_nothing:
  "(VinylDNS_new Urls (Object kvs) :: 'e js_exn + client)
     = Inr \<lparr> config = Object kvs,
             urls = Urls (case map_of kvs ''apiUrl'' of None \<Rightarrow> Undefined | Some v \<Rightarrow> v) \<rparr>
   \<and> (credentials_of \<lparr> config = Object kvs, urls = u \<rparr> :: 'e js_exn + credentials)
     = Inr \<lparr> accessKeyId = (case map_of kvs ''accessKeyId'' of None \<Rightarrow> Undefined | Some v \<Rightarrow> v),
             secretAccessKey =
               (case map_of kvs ''secretAccessKey'' of None \<Rightarrow> Undefined | Some v \<Rightarrow> v) \<rparr>
   \<and> (\<exists>out. request' p now \<lparr> config = Object kvs, urls = u \<rparr> d
               (c :: 'e option \<times> response option) = Inr out
            \<and> take 1 (trace out)
                = [AwsSign d \<lparr> accessKeyId = (case map_of kvs ''accessKeyId'' of
                                                 None \<Rightarrow> Undefined | Some v \<Rightarrow> v),
                                secretAccessKey = (case map_of kvs ''secretAccessKey'' of
                                                 None \<Rightarrow> Undefined | Some v \<Rightarrow> v) \<rparr>])"
  by (simp add: VinylDNS_new_def credentials_of_def request'_def Let_def)

theorem constructor_validates_nothing_witness:
  "(VinylDNS_new Urls_new (Object []) :: unit js_exn + client)
     = Inr \<lparr> config = Object [], urls = Urls_new Undefined \<rparr>
   \<and> (credentials_of \<lparr> config = Object [], urls = Urls_new Undefined \<rparr>
        :: unit js_exn + credentials)
     = Inr \<lparr> accessKeyId = Undefined, secretAccessKey = Undefined \<rparr>"
  using constructor_validates_nothing[of Urls_new "[]" "Urls_new Undefined", where ?'e = unit]
  by simp

section \<open>The request pipeline\<close>

text \<open>
  C5: each of the seven write methods, called with a truthy resource, objects included,
  hands to the signer a descriptor whose body is the \<^verbatim>\<open>JSON.stringify\<close> text of the
  resource and gives the signer's result to the transport. When \<^verbatim>\<open>JSON.parse\<close> recovers the
  resource from that text and the signer leaves the body of a descriptor as it is, decoding
  the body given to the transport yields the resource passed by the caller.
\<close>

theorem write_body_round_trip:
  assumes "op \<in> {CreateZone r, UpdateZone r, CreateRecordSet r, UpdateRecordSet r,
                 CreateBatchChange r, CreateGroup r, UpdateGroup r}"
    and "truthy r"
    and "JSON_parse p (JSON_stringify p r) = Some r"
    and "\<forall>d cr. body (aws4_sign p now d cr) = body d"
    and "call p now self op c = Inr out"
  shows "\<exists>d cr sent. take 2 (trace out) = [AwsSign d cr, Request sent]
           \<and> sent = aws4_sign p now d cr
           \<and> body d = JSON_stringify p r
           \<and> body sent = JSON_stringify p r
           \<and> JSON_parse p (body sent) = Some r"
proof -
  from call_trace[OF assms(5)] obtain url cr where
    t: "trace out = AwsSign (built p op url) cr # Request (aws4_sign p now (built p op url) cr)
           # trace (request_callback p (fst c) (snd c))"
    by auto
  have pl: "payload op = r"
    using assms(1) by auto
  have b: "body (built p op url) = JSON_stringify p r"
    using assms(2) by (simp add: body_built pl)
  have s: "body (aws4_sign p now (built p op url) cr) = JSON_stringify p r"
    using assms(4) b by simp
  have "take 2 (trace out)
          = [AwsSign (built p op url) cr, Request (aws4_sign p now (built p op url) cr)]"
    by (simp add: t)
  then show ?thesis
    using b s assms(3) by auto
qed

theorem write_body_round_trip_witness:
  "truthy team_a
   \<and> JSON_parse example_platform (JSON_stringify example_platform team_a) = Some team_a
   \<and> (\<forall>d cr. body (aws4_sign example_platform 7 d cr) = body d)
   \<and> (\<exists>out d cr sent.
         call example_platform 7 example_client (CreateZone team_a)
           (None :: unit option, Some \<lparr> statusCode = 201, resp_body = team_a_text \<rparr>) = Inr out
         \<and> take 2 (trace out) = [AwsSign d cr, Request sent]
         \<and> body sent = team_a_text
         \<and> JSON_parse example_platform (body sent) = Some team_a)
   \<and> (\<exists>out d cr sent.
         call example_platform 7 example_client (UpdateZone team_a)
           (None :: unit option, Some \<lparr> statusCode = 201, resp_body = team_a_text \<rparr>) = Inr out
         \<and> take 2 (trace out) = [AwsSign d cr, Request sent]
         \<and> body sent = team_a_text
         \<and> JSON_parse example_platform (body sent) = Some team_a)
   \<and> (\<exists>out d cr sent.
         call example_platform 7 example_client (CreateRecordSet team_a)
           (None :: unit option, Some \<lparr> statusCode = 201, resp_body = team_a_text \<rparr>) = Inr out
         \<and> take 2 (trace out) = [AwsSign d cr, Request sent]
         \<and> body sent = team_a_text
         \<and> JSON_parse example_platform (body sent) = Some team_a)
   \<and> (\<exists>out d cr sent.
         call example_platform 7 example_client (UpdateRecordSet team_a)
           (None :: unit option, Some \<lparr> statusCode = 201, resp_body = team_a_text \<rparr>) = Inr out
         \<and> take 2 (trace out) = [AwsSign d cr, Request sent]
         \<and> body sent = team_a_text
         \<and> JSON_parse example_platform (body sent) = Some team_a)
   \<and> (\<exists>out d cr sent.
         call example_platform 7 example_client (CreateBatchChange team_a)
           (None :: unit option, Some \<lparr> statusCode = 201, resp_body = team_a_text \<rparr>) = Inr out
         \<and> take 2 (trace out) = [AwsSign d cr, Request sent]
         \<and> body sent = team_a_text
         \<and> JSON_parse example_platform (body sent) = Some team_a)
   \<and> (\<exists>out d cr sent.
         call example_platform 7 example_client (CreateGroup team_a)
           (None :: unit option, Some \<lparr> statusCode = 201, resp_body = team_a_text \<rparr>) = Inr out
         \<and> take 2 (trace out) = [AwsSign d cr, Request sent]
         \<and> body sent = team_a_text
         \<and> JSON_parse example_platform (body sent) = Some team_a)
   \<and> (\<exists>out d cr sent.
         call example_platform 7 example_client (UpdateGroup team_a)
           (None :: unit option, Some \<lparr> statusCode = 201, resp_body = team_a_text \<rparr>) = Inr out
         \<and> take 2 (trace out) = [AwsSign d cr, Request sent]
         \<and> body sent = team_a_text
         \<and> JSON_parse example_platform (body sent) = Some team_a)"
proof -
  let ?S = "{CreateZone team_a, UpdateZone team_a, CreateRecordSet team_a,
             UpdateRecordSet team_a, CreateBatchChange team_a, CreateGroup team_a,
             UpdateGroup team_a}"
  let ?c = "(None :: unit option, Some \<lparr> statusCode = 201, resp_body = team_a_text \<rparr>)"
  have tr: "truthy team_a" by (simp add: team_a_def)
  have s: "JSON_stringify example_platform team_a = team_a_text"
    by (simp add: example_platform_def)
  have rt: "JSON_parse example_platform (JSON_stringify example_platform team_a) = Some team_a"
    by (simp add: example_platform_def)
  have pb: "\<forall>d cr. body (aws4_sign example_platform 7 d cr) = body d"
    by (simp add: example_signer_keeps_body)
  have each: "\<exists>out d cr sent.
         call example_platform 7 example_client op ?c = Inr out
         \<and> take 2 (trace out) = [AwsSign d cr, Request sent]
         \<and> body sent = team_a_text
         \<and> JSON_parse example_platform (body sent) = Some team_a" if m: "op \<in> ?S" for op
  proof -
    from example_write_returns[OF m] obtain out where
      o: "call example_platform 7 example_client op ?c = Inr out"
      by blast
    from write_body_round_trip[OF m tr rt pb o] obtain d cr sent where
      "take 2 (trace out) = [AwsSign d cr, Request sent]"
      and "body sent = team_a_text"
      and "JSON_parse example_platform (body sent) = Some team_a"
      by (auto simp: s)
    then show ?thesis
      using o by blast
  qed
  show ?thesis
    by (intro conjI each) (simp_all add: tr rt pb)
qed

text \<open>
  C6: every method that passes the verb \<^verbatim>\<open>get\<close> or \<^verbatim>\<open>delete\<close>, and \<^verbatim>\<open>syncZone\<close>, hands to
  the signer a descriptor with the method \<^verbatim>\<open>GET\<close>, \<^verbatim>\<open>DELETE\<close> or \<^verbatim>\<open>POST\<close> and the empty
  string as its body, and gives the signer's result to the transport; that descriptor has
  the empty body too when the signer leaves the body of a descriptor as it is.
\<close>

theorem bodyless_requests_carry_empty_body:
  assumes "call p now self op c = Inr out"
    and "verb op = ''get'' \<or> verb op = ''delete'' \<or> op = SyncZone i"
    and "\<forall>d cr. body (aws4_sign p now d cr) = body d"
  shows "\<exists>d cr sent. take 2 (trace out) = [AwsSign d cr, Request sent]
           \<and> sent = aws4_sign p now d cr
           \<and> method' d = toUpperCase (verb op)
           \<and> method' d \<in> {''GET'', ''DELETE'', ''POST''}
           \<and> body d = []
           \<and> body sent = []"
proof -
  from call_trace[OF assms(1)] obtain url cr where
    t: "trace out = AwsSign (built p op url) cr # Request (aws4_sign p now (built p op url) cr)
           # trace (request_callback p (fst c) (snd c))"
    by auto
  have "payload op = Undefined"
    using assms(2) by (rule bodyless_payload)
  then have b: "body (built p op url) = []"
    by (simp add: body_built)
  have s: "body (aws4_sign p now (built p op url) cr) = []"
    using assms(3) b by simp
  have m: "method' (built p op url) \<in> {''GET'', ''DELETE'', ''POST''}"
    using assms(2) by (auto simp: method_built toUpperCase_verbs)
  have "take 2 (trace out)
          = [AwsSign (built p op url) cr, Request (aws4_sign p now (built p op url) cr)]"
    by (simp add: t)
  then show ?thesis
    using b s m method_built[of p op url] by auto
qed

theorem bodyless_requests_carry_empty_body_witness:
  "(\<forall>d cr. body (aws4_sign example_platform 7 d cr) = body d)
   \<and> (\<exists>out d cr sent.
         call example_platform 7 example_client (GetZone (String ''abc123''))
           (None :: unit option, Some \<lparr> statusCode = 404, resp_body = not_found_text \<rparr>) = Inr out
         \<and> take 2 (trace out) = [AwsSign d cr, Request sent]
         \<and> method' d = ''GET'' \<and> body d = [] \<and> body sent = [])
   \<and> (\<exists>out d cr sent.
         call example_platform 7 example_client (DeleteZone (String ''abc123''))
           (None :: unit option, Some \<lparr> statusCode = 404, resp_body = not_found_text \<rparr>) = Inr out
         \<and> take 2 (trace out) = [AwsSign d cr, Request sent]
         \<and> method' d = ''DELETE'' \<and> body d = [] \<and> body sent = [])
   \<and> (\<exists>out d cr sent.
         call example_platform 7 example_client (SyncZone (String ''abc123''))
           (None :: unit option, Some \<lparr> statusCode = 404, resp_body = not_found_text \<rparr>) = Inr out
         \<and> take 2 (trace out) = [AwsSign d cr, Request sent]
         \<and> method' d = ''POST'' \<and> body d = [] \<and> body sent = [])"
proof -
  let ?i = "String ''abc123''"
  let ?c = "(None :: unit option, Some \<lparr> statusCode = 404, resp_body = not_found_text \<rparr>)"
  have pb: "\<forall>d cr. body (aws4_sign example_platform 7 d cr) = body d"
    by (simp add: example_signer_keeps_body)
  have each: "\<exists>out d cr sent.
         call example_platform 7 example_client op ?c = Inr out
         \<and> take 2 (trace out) = [AwsSign d cr, Request sent]
         \<and> method' d = toUpperCase (verb op) \<and> body d = [] \<and> body sent = []"
    if m: "op \<in> {GetZone ?i, DeleteZone ?i, SyncZone ?i}" for op
  proof -
    from example_bodyless_returns[OF m] obtain out where
      o: "call example_platform 7 example_client op ?c = Inr out"
      by blast
    have k: "verb op = ''get'' \<or> verb op = ''delete'' \<or> op = SyncZone ?i"
      using m by auto
    from bodyless_requests_carry_empty_body[OF o k pb] obtain d cr sent where
      "take 2 (trace out) = [AwsSign d cr, Request sent]"
      and "method' d = toUpperCase (verb op)" and "body d = []" and "body sent = []"
      by blast
    then show ?thesis
      using o by blast
  qed
  show ?thesis
    using pb each[of "GetZone ?i"] each[of "DeleteZone ?i"] each[of "SyncZone ?i"]
    by (simp add: toUpperCase_verbs)
qed

text \<open>
  C7: every public method that returns a promise calls the signer exactly once and the
  transport exactly once, in this order. The descriptor handed to the signer is the one
  \<^verbatim>\<open>_requestOptions\<close> returned, with its final body, the \<^verbatim>\<open>JSON.stringify\<close> text of the
  resource or the empty string, its final method and its header; the descriptor given to
  the transport is the signer's result.
\<close>

theorem signed_once_when_final:
  assumes "call p now self op c = Inr out"
  shows "\<exists>url d cr.
           d = requestOptions' p
                 \<lparr> opt_url = url, opt_method = Some (verb op), opt_body = payload op \<rparr>
           \<and> take 2 (trace out) = [AwsSign d cr, Request (aws4_sign p now d cr)]
           \<and> body d = (if truthy (payload op) then JSON_stringify p (payload op) else [])
           \<and> method' d = toUpperCase (verb op)
           \<and> headers d = [(''Content-Type'', ''application/json'')]
           \<and> length (filter is_signing (trace out)) = 1
           \<and> length (filter is_dispatch (trace out)) = 1"
proof -
  from call_trace[OF assms] obtain url cr where
    t: "trace out = AwsSign (built p op url) cr # Request (aws4_sign p now (built p op url) cr)
           # trace (request_callback p (fst c) (snd c))"
    by auto
  have "take 2 (trace out)
          = [AwsSign (built p op url) cr, Request (aws4_sign p now (built p op url) cr)]"
    by (simp add: t)
  moreover have "length (filter is_signing (trace out)) = 1"
    and "length (filter is_dispatch (trace out)) = 1"
    by (simp_all add: t callback_no_signing)
  ultimately show ?thesis
    using body_built[of p op url] method_built[of p op url] headers_built[of p op url]
    unfolding built_def by blast
qed

theorem signed_once_when_final_witness:
  "\<exists>out. call example_platform 7 example_client (CreateGroup team_a)
            (None :: unit option, Some \<lparr> statusCode = 200, resp_body = team_a_text \<rparr>) = Inr out
     \<and> (\<exists>d cr. take 2 (trace out) = [AwsSign d cr, Request (aws4_sign example_platform 7 d cr)]
           \<and> body d = team_a_text \<and> method' d = ''POST'')
     \<and> length (filter is_signing (trace out)) = 1
     \<and> length (filter is_dispatch (trace out)) = 1"
proof -
  have "\<exists>out. call example_platform 7 example_client (CreateGroup team_a)
            (None :: unit option, Some \<lparr> statusCode = 200, resp_body = team_a_text \<rparr>) = Inr out"
    by (simp add: createGroup_def example_createOrUpdate_returns)
  then obtain out where
    o: "call example_platform 7 example_client (CreateGroup team_a)
            (None :: unit option, Some \<lparr> statusCode = 200, resp_body = team_a_text \<rparr>) = Inr out"
    by blast
  have s: "JSON_stringify example_platform team_a = team_a_text"
    by (simp add: example_platform_def)
  have tr: "truthy team_a" by (simp add: team_a_def)
  from signed_once_when_final[OF o]
  have "\<exists>d cr. take 2 (trace out) = [AwsSign d cr, Request (aws4_sign example_platform 7 d cr)]
           \<and> body d = team_a_text \<and> method' d = ''POST''
           \<and> length (filter is_signing (trace out)) = 1
           \<and> length (filter is_dispatch (trace out)) = 1"
    by (auto simp: s tr toUpperCase_verbs)
  then show ?thesis
    using o by blast
qed

text \<open>
  C10: the descriptor of every public method has the one header
  \<^verbatim>\<open>Content-Type: application/json\<close>, whether or not it carries a body, and as its method
  the upper-case form of the verb the method passes, one of \<^verbatim>\<open>GET\<close>, \<^verbatim>\<open>POST\<close>, \<^verbatim>\<open>PUT\<close>
  and \<^verbatim>\<open>DELETE\<close>. Without a method \<^verbatim>\<open>_requestOptions\<close> sets \<^verbatim>\<open>GET\<close>, and it sets the
  header for every argument.
\<close>

theorem descriptors_json_and_uppercase:
  assumes "call p now self op c = Inr out"
  shows "\<exists>d cr rest. trace out = AwsSign d cr # rest
           \<and> headers d = [(''Content-Type'', ''application/json'')]
           \<and> method' d = toUpperCase (verb op)
           \<and> method' d \<in> {''GET'', ''POST'', ''PUT'', ''DELETE''}
           \<and> method' (requestOptions' p \<lparr> opt_url = u, opt_method = None, opt_body = b \<rparr>) = ''GET''
           \<and> headers (requestOptions' p opts) = [(''Content-Type'', ''application/json'')]"
proof -
  from call_trace[OF assms] obtain url cr where
    t: "trace out = AwsSign (built p op url) cr # Request (aws4_sign p now (built p op url) cr)
           # trace (request_callback p (fst c) (snd c))"
    by auto
  have "method' (built p op url) \<in> {''GET'', ''POST'', ''PUT'', ''DELETE''}"
    using verb_cases[of op] by (auto simp: method_built toUpperCase_verbs)
  moreover have
    "method' (requestOptions' p \<lparr> opt_url = u, opt_method = None, opt_body = b \<rparr>) = ''GET''"
    and "headers (requestOptions' p opts) = [(''Content-Type'', ''application/json'')]"
    by (simp_all add: requestOptions'_def Let_def)
  ultimately show ?thesis
    using t headers_built method_built by blast
qed


theorem descriptors_json_and_uppercase_witness:
  "\<exists>out d cr rest.
     call example_platform 7 example_client (DeleteZone (String ''abc123''))
       (Some ''ECONNRESET'', None) = Inr out
     \<and> trace out = AwsSign d cr # rest
     \<and> headers d = [(''Content-Type'', ''application/json'')]
     \<and> method' d = ''DELETE''"
proof -
  have "\<exists>out. call example_platform 7 example_client (DeleteZone (String ''abc123''))
       (Some ''ECONNRESET'', None) = Inr out"
    by (simp add: deleteZone_def example_getOrDelete_returns)
  then obtain out where
    o: "call example_platform 7 example_client (DeleteZone (String ''abc123''))
       (Some ''ECONNRESET'', None) = Inr out"
    by blast
  from descriptors_json_and_uppercase[OF o] obtain d cr rest where
    "trace out = AwsSign d cr # rest"
    and "headers d = [(''Content-Type'', ''application/json'')]"
    and "method' d = toUpperCase (verb (DeleteZone (String ''abc123'')))"
    by blast
  then show ?thesis
    using o by (auto simp: toUpperCase_verbs)
qed

end
